theory Spec2Isabelle
  imports Complex_Main "HOL-Library.Sublist"
begin

section \<open>Python values\<close>

text \<open>
  A Python \<open>str\<close> is a sequence of Unicode code points. The catalogue, the prompts and the
  replies of the bot are Russian text, so a string is modelled as the list of its code points
  (\<open>ord\<close> of each character), not as a list of bytes. ASCII literals are written through
  \<open>ascii\<close>. Python \<open>float\<close> values (coordinates, prices, distances) are read as real
  numbers: the arithmetic below is the arithmetic of the source without the rounding error of
  IEEE doubles. Python's unbounded \<open>int\<close> is \<open>int\<close>.
\<close>

type_synonym ustring = "nat list"

definition ascii :: "string \<Rightarrow> ustring" where
  "ascii s = map of_char s"

text \<open>
  \<open>str.lower()\<close>, on the alphabets the bot meets: Basic Latin, Latin-1 and the Cyrillic block
  U+0400..U+042F, where Python maps the string code point by code point. Code points of other
  scripts are left as they are.
\<close>

definition lower_cp :: "nat \<Rightarrow> nat" where
  "lower_cp c =
     (if 65 \<le> c \<and> c \<le> 90 then c + 32
      else if 192 \<le> c \<and> c \<le> 222 \<and> c \<noteq> 215 then c + 32
      else if 1024 \<le> c \<and> c \<le> 1039 then c + 80
      else if 1040 \<le> c \<and> c \<le> 1071 then c + 32
      else c)"

definition str_lower :: "ustring \<Rightarrow> ustring" where
  "str_lower s = map lower_cp s"

text \<open>\<open>str.isspace()\<close> of one code point: the white space that \<open>str.strip()\<close> removes.\<close>

definition isspace :: "nat \<Rightarrow> bool" where
  "isspace c \<longleftrightarrow>
     (9 \<le> c \<and> c \<le> 13) \<or> (28 \<le> c \<and> c \<le> 32) \<or> c = 133 \<or> c = 160 \<or> c = 5760
     \<or> (8192 \<le> c \<and> c \<le> 8202) \<or> c = 8232 \<or> c = 8233 \<or> c = 8239 \<or> c = 8287
     \<or> c = 12288"

definition str_strip :: "ustring \<Rightarrow> ustring" where
  "str_strip s = rev (dropWhile isspace (rev (dropWhile isspace s)))"

text \<open>\<open>needle in haystack\<close> for strings: the needle occurs as a contiguous run.\<close>

fun startswith :: "'a list \<Rightarrow> 'a list \<Rightarrow> bool" where
  "startswith s [] = True"
| "startswith [] (p # ps) = False"
| "startswith (c # cs) (p # ps) = (c = p \<and> startswith cs ps)"

fun str_contains :: "'a list \<Rightarrow> 'a list \<Rightarrow> bool" where
  "str_contains needle [] = (needle = [])"
| "str_contains needle (c # cs) = (startswith (c # cs) needle \<or> str_contains needle cs)"

text \<open>
  The slice \<open>xs[:n]\<close>: the first \<open>n\<close> elements, and for a negative \<open>n\<close> everything but the
  last \<open>-n\<close> elements.
\<close>

definition slice_to :: "'a list \<Rightarrow> int \<Rightarrow> 'a list" where
  "slice_to xs n =
     (if n < 0 then take (nat (int (length xs) + n)) xs else take (nat n) xs)"

text \<open>
  \<open>round(x, 2)\<close>: to the nearest multiple of 0.01, a tie going to the even neighbour.
\<close>

definition round_half_even :: "real \<Rightarrow> int" where
  "round_half_even x =
     (let f = \<lfloor>x\<rfloor>; d = x - of_int f
      in if d < 1 / 2 then f else if 1 / 2 < d then f + 1 else if even f then f else f + 1)"

definition round2 :: "real \<Rightarrow> real" where
  "round2 x = of_int (round_half_even (x * 100)) / 100"

section \<open>The recipe catalogue\<close>

text \<open>
  Recipes and ingredients are dictionaries in the source. Every dictionary of the catalogue
  has every key, so they are records here; the defaults of \<open>dict.get\<close> (an absent
  \<open>ingredients\<close> list read as empty, an absent \<open>suitable_for_celiac\<close> read as
  \<open>False\<close>) never apply. The keys \<open>id\<close>, \<open>name\<close>, \<open>address\<close> and \<open>rating\<close>,
  which several kinds of dictionary share, carry the kind as a suffix. The free text of a
  recipe that no operation below reads (\<open>description\<close>, \<open>instructions\<close>) is left out.
\<close>

record ingredient =
  name_ing :: ustring
  amount :: int
  unit :: ustring

record recipe =
  id_recipe :: ustring
  name_recipe :: ustring
  calories :: int
  proteins :: int
  fats :: int
  carbs :: int
  glycemic_index :: int
  purines :: int
  suitable_for_diabetes :: bool
  suitable_for_gout :: bool
  suitable_for_celiac :: bool
  ingredients :: "ingredient list"

record shop =
  id_shop :: ustring
  name_shop :: ustring
  latitude :: real
  longitude :: real
  address_shop :: ustring
  rating_shop :: real
  working_hours :: ustring

definition kurinoe_file :: ustring where \<comment> \<open>"Kurinoe file"\<close>
  "kurinoe_file =
    [1050, 1091, 1088, 1080, 1085, 1086, 1077, 32, 1092, 1080, 1083, 1077]"

definition brokkoli :: ustring where \<comment> \<open>"Brokkoli"\<close>
  "brokkoli =
    [1041, 1088, 1086, 1082, 1082, 1086, 1083, 1080]"

definition olivkovoe_maslo :: ustring where \<comment> \<open>"Olivkovoe maslo"\<close>
  "olivkovoe_maslo =
    [1054, 1083, 1080, 1074, 1082, 1086, 1074, 1086, 1077, 32, 1084, 1072, 1089, 1083, 1086]"

definition sol_perec :: ustring where \<comment> \<open>"Sol', perets"\<close>
  "sol_perec =
    [1057, 1086, 1083, 1100, 44, 32, 1087, 1077, 1088, 1077, 1094]"

definition listya_salata :: ustring where \<comment> \<open>"List'ya salata"\<close>
  "listya_salata =
    [1051, 1080, 1089, 1090, 1100, 1103, 32, 1089, 1072, 1083, 1072, 1090, 1072]"

definition pomidory :: ustring where \<comment> \<open>"Pomidory"\<close>
  "pomidory =
    [1055, 1086, 1084, 1080, 1076, 1086, 1088, 1099]"

definition ogurec :: ustring where \<comment> \<open>"Ogurets"\<close>
  "ogurec =
    [1054, 1075, 1091, 1088, 1077, 1094]"

definition limonnyi_sok :: ustring where \<comment> \<open>"Limonnyi sok"\<close>
  "limonnyi_sok =
    [1051, 1080, 1084, 1086, 1085, 1085, 1099, 1081, 32, 1089, 1086, 1082]"

definition morskaya_ryba :: ustring where \<comment> \<open>"Morskaya ryba"\<close>
  "morskaya_ryba =
    [1052, 1086, 1088, 1089, 1082, 1072, 1103, 32, 1088, 1099, 1073, 1072]"

definition limon :: ustring where \<comment> \<open>"Limon"\<close>
  "limon =
    [1051, 1080, 1084, 1086, 1085]"

definition zelen :: ustring where \<comment> \<open>"Zelen'"\<close>
  "zelen =
    [1047, 1077, 1083, 1077, 1085, 1100]"

definition salat :: ustring where \<comment> \<open>"Salat"\<close>
  "salat =
    [1057, 1072, 1083, 1072, 1090]"

definition unit_g :: ustring where
  "unit_g = ascii ''g''"

definition unit_ml :: ustring where
  "unit_ml = ascii ''ml''"

definition unit_shchepotka :: ustring where
  "unit_shchepotka = [1097, 1077, 1087, 1086, 1090, 1082, 1072]"

definition unit_sht :: ustring where
  "unit_sht = [1096, 1090]"

definition recipe_1_name :: ustring where \<comment> \<open>"Kuritsa s brokkoli na paru"\<close>
  "recipe_1_name =
    [1050, 1091, 1088, 1080, 1094, 1072, 32, 1089, 32, 1073, 1088, 1086, 1082, 1082, 1086,
     1083, 1080, 32, 1085, 1072, 32, 1087, 1072, 1088, 1091]"

definition recipe_2_name :: ustring where \<comment> \<open>"Salat <<Zelyonyi miks>>"\<close>
  "recipe_2_name =
    [1057, 1072, 1083, 1072, 1090, 32, 171, 1047, 1077, 1083, 1105, 1085, 1099, 1081, 32, 1084,
     1080, 1082, 1089, 187]"

definition recipe_3_name :: ustring where \<comment> \<open>"Ryba na grile"\<close>
  "recipe_3_name =
    [1056, 1099, 1073, 1072, 32, 1085, 1072, 32, 1075, 1088, 1080, 1083, 1077]"

definition recipe_1 :: recipe where
  "recipe_1 =
     \<lparr>id_recipe = ascii ''r_001'', name_recipe = recipe_1_name,
      calories = 320, proteins = 42, fats = 9, carbs = 18,
      glycemic_index = 35, purines = 45,
      suitable_for_diabetes = True, suitable_for_gout = False, suitable_for_celiac = True,
      ingredients =
       [
        \<lparr>name_ing = kurinoe_file, amount = 300, unit = unit_g\<rparr>,
        \<lparr>name_ing = brokkoli, amount = 200, unit = unit_g\<rparr>,
        \<lparr>name_ing = olivkovoe_maslo, amount = 10, unit = unit_ml\<rparr>,
        \<lparr>name_ing = sol_perec, amount = 1, unit = unit_shchepotka\<rparr>]\<rparr>"

definition recipe_2 :: recipe where
  "recipe_2 =
     \<lparr>id_recipe = ascii ''r_002'', name_recipe = recipe_2_name,
      calories = 150, proteins = 5, fats = 8, carbs = 12,
      glycemic_index = 20, purines = 5,
      suitable_for_diabetes = True, suitable_for_gout = True, suitable_for_celiac = True,
      ingredients =
       [
        \<lparr>name_ing = listya_salata, amount = 100, unit = unit_g\<rparr>,
        \<lparr>name_ing = pomidory, amount = 100, unit = unit_g\<rparr>,
        \<lparr>name_ing = ogurec, amount = 1, unit = unit_sht\<rparr>,
        \<lparr>name_ing = olivkovoe_maslo, amount = 15, unit = unit_ml\<rparr>,
        \<lparr>name_ing = limonnyi_sok, amount = 15, unit = unit_ml\<rparr>]\<rparr>"

definition recipe_3 :: recipe where
  "recipe_3 =
     \<lparr>id_recipe = ascii ''r_003'', name_recipe = recipe_3_name,
      calories = 280, proteins = 38, fats = 12, carbs = 2,
      glycemic_index = 10, purines = 120,
      suitable_for_diabetes = True, suitable_for_gout = False, suitable_for_celiac = True,
      ingredients =
       [
        \<lparr>name_ing = morskaya_ryba, amount = 300, unit = unit_g\<rparr>,
        \<lparr>name_ing = limon, amount = 1, unit = unit_sht\<rparr>,
        \<lparr>name_ing = zelen, amount = 20, unit = unit_g\<rparr>]\<rparr>"

definition shop_1_name :: ustring where \<comment> \<open>"Pyatyorochka na Krasnoi ploshchadi"\<close>
  "shop_1_name =
    [1055, 1103, 1090, 1105, 1088, 1086, 1095, 1082, 1072, 32, 1085, 1072, 32, 1050, 1088,
     1072, 1089, 1085, 1086, 1081, 32, 1087, 1083, 1086, 1097, 1072, 1076, 1080]"

definition shop_1_address :: ustring where \<comment> \<open>"Moskva, Krasnaya ploshchad', 1"\<close>
  "shop_1_address =
    [1052, 1086, 1089, 1082, 1074, 1072, 44, 32, 1050, 1088, 1072, 1089, 1085, 1072, 1103, 32,
     1087, 1083, 1086, 1097, 1072, 1076, 1100, 44, 32, 49]"





definition shop_1 :: shop where
  "shop_1 =
     \<lparr>id_shop = ascii ''shop_001'', name_shop = shop_1_name,
      latitude = 55.7558, longitude = 37.6173,
      address_shop = shop_1_address, rating_shop = 4.7,
      working_hours = ascii ''08:00-23:00''\<rparr>"



definition MOCK_PRICES :: "(ustring \<times> (ustring \<times> real) list) list" where
  "MOCK_PRICES =
     [
      (ascii ''shop_001'',
       [
        (kurinoe_file, 289),
        (brokkoli, 49),
        (salat, 35),
        (pomidory, 45),
        (ogurec, 15),
        (olivkovoe_maslo, 320)]),
      (ascii ''shop_002'',
       [
        (kurinoe_file, 269),
        (brokkoli, 59),
        (salat, 39),
        (pomidory, 49),
        (ogurec, 18),
        (olivkovoe_maslo, 299)]),
      (ascii ''shop_003'',
       [
        (kurinoe_file, 299),
        (brokkoli, 44),
        (salat, 32),
        (pomidory, 42),
        (ogurec, 12),
        (olivkovoe_maslo, 340)])]"

definition MOCK_RECIPES :: "recipe list" where
  "MOCK_RECIPES = [recipe_1, recipe_2, recipe_3]"


section \<open>RecipeService\<close>

text \<open>
  \<open>_filter_by_diagnosis\<close>: the loop over the recipes, each \<open>continue\<close> skipping the
  recipe, \<open>filtered\<close> being the accumulator.
\<close>

fun filter_by_diagnosis_loop ::
  "recipe list \<Rightarrow> bool \<Rightarrow> bool \<Rightarrow> bool \<Rightarrow> recipe list \<Rightarrow> recipe list" where
  "filter_by_diagnosis_loop [] has_diabetes has_gout has_celiac filtered = filtered"
| "filter_by_diagnosis_loop (r # rs) has_diabetes has_gout has_celiac filtered =
     (if has_diabetes \<and> glycemic_index r > 60
      then filter_by_diagnosis_loop rs has_diabetes has_gout has_celiac filtered
      else if has_gout \<and> purines r > 100
      then filter_by_diagnosis_loop rs has_diabetes has_gout has_celiac filtered
      else if has_celiac \<and> \<not> suitable_for_celiac r
      then filter_by_diagnosis_loop rs has_diabetes has_gout has_celiac filtered
      else filter_by_diagnosis_loop rs has_diabetes has_gout has_celiac (filtered @ [r]))"

definition filter_by_diagnosis ::
  "recipe list \<Rightarrow> bool \<Rightarrow> bool \<Rightarrow> bool \<Rightarrow> recipe list" where
  "filter_by_diagnosis recipes has_diabetes has_gout has_celiac =
     filter_by_diagnosis_loop recipes has_diabetes has_gout has_celiac []"

text \<open>The condition of the list comprehension in \<open>search_recipes\<close>.\<close>

definition recipe_matches :: "ustring \<Rightarrow> recipe \<Rightarrow> bool" where
  "recipe_matches query_lower r \<longleftrightarrow>
     str_contains query_lower (str_lower (name_recipe r))
     \<or> list_ex (\<lambda>ing. str_contains query_lower (str_lower (name_ing ing))) (ingredients r)"

definition search_recipes ::
  "ustring \<Rightarrow> bool \<Rightarrow> bool \<Rightarrow> bool \<Rightarrow> int \<Rightarrow> recipe list" where
  "search_recipes query has_diabetes has_gout has_celiac limit =
     (let query_lower = str_strip (str_lower query);
          matching_recipes = filter (recipe_matches query_lower) MOCK_RECIPES;
          filtered_recipes =
            filter_by_diagnosis matching_recipes has_diabetes has_gout has_celiac
      in slice_to filtered_recipes limit)"

text \<open>
  The search as the specification words it, for comparison: the query is lower-cased (and
  not stripped), a recipe matches on its name or on one of its ingredients, the diagnosis
  rules apply, and the first \<open>limit\<close> recipes are returned.
\<close>

definition spec_recipe_kept :: "bool \<Rightarrow> bool \<Rightarrow> bool \<Rightarrow> recipe \<Rightarrow> bool" where
  "spec_recipe_kept has_diabetes has_gout has_celiac r \<longleftrightarrow>
     \<not> (has_diabetes \<and> glycemic_index r > 60)
     \<and> \<not> (has_gout \<and> purines r > 100)
     \<and> \<not> (has_celiac \<and> \<not> suitable_for_celiac r)"

definition spec_search_recipes ::
  "ustring \<Rightarrow> bool \<Rightarrow> bool \<Rightarrow> bool \<Rightarrow> int \<Rightarrow> recipe list" where
  "spec_search_recipes query has_diabetes has_gout has_celiac limit =
     take (nat limit)
       (filter (\<lambda>r. recipe_matches (str_lower query) r
                   \<and> spec_recipe_kept has_diabetes has_gout has_celiac r) MOCK_RECIPES)"

section \<open>ShopService\<close>






text \<open>
  One value of the dictionary that \<open>get_prices_for_recipe\<close> returns. The key
  \<open>shop_id\<close> is absent until \<open>find_cheapest_shop\<close> adds it.
\<close>

record price_entry =
  shop_name :: ustring
  total_price :: real
  found_ingredients :: int
  total_ingredients :: int
  price_per_serving :: real
  address :: ustring
  rating :: real
  shop_id :: "ustring option"

text \<open>
  The inner loop of \<open>get_prices_for_recipe\<close> over the ingredients, with the running
  \<open>total_price\<close> and \<open>found_ingredients\<close>. \<open>if price_per_unit:\<close> is false for an absent
  name and for a price of zero.
\<close>

fun price_loop ::
  "(ustring \<times> real) list \<Rightarrow> ingredient list \<Rightarrow> real \<Rightarrow> int \<Rightarrow> real \<times> int" where
  "price_loop shop_prices [] tot found = (tot, found)"
| "price_loop shop_prices (ing # ings) tot found =
     (case map_of shop_prices (name_ing ing) of
        None \<Rightarrow> price_loop shop_prices ings tot found
      | Some price_per_unit \<Rightarrow>
          if price_per_unit \<noteq> 0
          then price_loop shop_prices ings (tot + price_per_unit) (found + 1)
          else price_loop shop_prices ings tot found)"

definition shop_price_entry :: "shop \<Rightarrow> ingredient list \<Rightarrow> price_entry" where
  "shop_price_entry s ings =
     (let shop_prices = (case map_of MOCK_PRICES (id_shop s) of None \<Rightarrow> [] | Some t \<Rightarrow> t);
          (tot, found) = price_loop shop_prices ings 0 0
      in \<lparr>shop_name = name_shop s,
          total_price = tot,
          found_ingredients = found,
          total_ingredients = int (length ings),
          price_per_serving =
            (if ings \<noteq> [] then round2 (tot / real (length ings)) else 0),
          address = address_shop s,
          rating = rating_shop s,
          shop_id = None\<rparr>)"


text \<open>
  \<open>find_cheapest_shop\<close> writes into a dictionary that its caller still holds, so the values
  of the price map are references into a store of dictionary objects. The price map itself,
  which the function only reads, is the list of its items in insertion order.
\<close>

type_synonym ref = nat
type_synonym store = "ref \<Rightarrow> price_entry"

text \<open>
  \<open>min(items, key=...)\<close>: the running minimum is replaced only by an item whose key is
  strictly smaller.
\<close>

fun min_loop :: "('a \<Rightarrow> real) \<Rightarrow> 'a \<Rightarrow> 'a list \<Rightarrow> 'a" where
  "min_loop key best [] = best"
| "min_loop key best (x # xs) = min_loop key (if key x < key best then x else best) xs"

definition find_cheapest_shop ::
  "(ustring \<times> ref) list \<Rightarrow> store \<Rightarrow> ref option \<times> store" where
  "find_cheapest_shop prices_by_shop h =
     (case prices_by_shop of
        [] \<Rightarrow> (None, h)
      | item # items \<Rightarrow>
          (let (sid, shop_data) = min_loop (\<lambda>x. total_price (h (snd x))) item items
           in (Some shop_data, h(shop_data := (h shop_data)\<lparr>shop_id := Some sid\<rparr>))))"

section \<open>GPTService\<close>

text \<open>
  The language model is outside the program. A call of \<open>openai.ChatCompletion.create\<close>
  either answers with a text or raises; what the \<open>n\<close>-th call does, given the prompts and the
  token budget, is a parameter of the model. Of a raised exception the code asks only whether
  it is an \<open>openai.APIError\<close> (the first \<open>except\<close> clause) and whether it is one of the
  classes the retry policy names; every exception it can raise is an \<open>Exception\<close>.
\<close>

record py_exception =
  is_APIError :: bool
  is_APIConnectionError :: bool

datatype upstream = Reply ustring | Raises py_exception

type_synonym gpt_endpoint = "nat \<Rightarrow> ustring \<Rightarrow> ustring \<Rightarrow> int \<Rightarrow> upstream"

definition SYSTEM_PROMPT :: ustring where \<comment> \<open>the persona of a professional dietician, in Russian\<close>
  "SYSTEM_PROMPT =
    [1042, 1099, 32, 1087, 1088, 1086, 1092, 1077, 1089, 1089, 1080, 1086, 1085, 1072, 1083,
     1100, 1085, 1099, 1081, 32, 1076, 1080, 1077, 1090, 1086, 1083, 1086, 1075, 32, 1089, 32,
     50, 48, 45, 1083, 1077, 1090, 1085, 1080, 1084, 32, 1086, 1087, 1099, 1090, 1086, 1084,
     46, 32, 1054, 1090, 1074, 1077, 1095, 1072, 1081, 1090, 1077, 32, 1085, 1072, 32, 1074,
     1086, 1087, 1088, 1086, 1089, 1099, 32, 1086, 32, 1087, 1080, 1090, 1072, 1085, 1080,
     1080, 32, 1082, 1088, 1072, 1090, 1082, 1086, 44, 32, 1103, 1089, 1085, 1086, 32, 1080,
     32, 1085, 1072, 1091, 1095, 1085, 1086, 32, 1086, 1073, 1086, 1089, 1085, 1086, 1074,
     1072, 1085, 1085, 1086, 46, 32, 1042, 1089, 1077, 1075, 1076, 1072, 32, 1088, 1077, 1082,
     1086, 1084, 1077, 1085, 1076, 1091, 1081, 1090, 1077, 32, 1082, 1086, 1085, 1089, 1091,
     1083, 1100, 1090, 1072, 1094, 1080, 1102, 32, 1089, 32, 1074, 1088, 1072, 1095, 1086,
     1084, 32, 1076, 1083, 1103, 32, 1089, 1077, 1088, 1100, 1105, 1079, 1085, 1099, 1093, 32,
     1087, 1088, 1086, 1073, 1083, 1077, 1084, 46, 32, 1054, 1090, 1074, 1077, 1090, 1099, 32,
     1076, 1086, 1083, 1078, 1085, 1099, 32, 1073, 1099, 1090, 1100, 32, 1085, 1072, 32, 1088,
     1091, 1089, 1089, 1082, 1086, 1084, 32, 1103, 1079, 1099, 1082, 1077, 46]"

definition diagnosis_diabetes :: ustring where \<comment> \<open>"sakharnyi diabet"\<close>
  "diagnosis_diabetes =
    [1089, 1072, 1093, 1072, 1088, 1085, 1099, 1081, 32, 1076, 1080, 1072, 1073, 1077, 1090]"

definition diagnosis_gout :: ustring where \<comment> \<open>"podagra"\<close>
  "diagnosis_gout =
    [1087, 1086, 1076, 1072, 1075, 1088, 1072]"

definition diagnosis_celiac :: ustring where \<comment> \<open>"tseliakiya"\<close>
  "diagnosis_celiac =
    [1094, 1077, 1083, 1080, 1072, 1082, 1080, 1103]"

definition context_prefix :: ustring where \<comment> \<open>"Pol'zovatel' imeet: "\<close>
  "context_prefix =
    [1055, 1086, 1083, 1100, 1079, 1086, 1074, 1072, 1090, 1077, 1083, 1100, 32, 1080, 1084,
     1077, 1077, 1090, 58, 32]"

definition context_none :: ustring where \<comment> \<open>"Pol'zovatel' bez spetsial'nykh diagnozov. "\<close>
  "context_none =
    [1055, 1086, 1083, 1100, 1079, 1086, 1074, 1072, 1090, 1077, 1083, 1100, 32, 1073, 1077,
     1079, 32, 1089, 1087, 1077, 1094, 1080, 1072, 1083, 1100, 1085, 1099, 1093, 32, 1076,
     1080, 1072, 1075, 1085, 1086, 1079, 1086, 1074, 46, 32]"

definition prompt_question :: ustring where \<comment> \<open>"Vopros: "\<close>
  "prompt_question =
    [1042, 1086, 1087, 1088, 1086, 1089, 58, 32]"

definition prompt_closing :: ustring where \<comment> \<open>"Otvet'te s uchyotom zdorov'ya pol'zovatelya."\<close>
  "prompt_closing =
    [1054, 1090, 1074, 1077, 1090, 1100, 1090, 1077, 32, 1089, 32, 1091, 1095, 1105, 1090,
     1086, 1084, 32, 1079, 1076, 1086, 1088, 1086, 1074, 1100, 1103, 32, 1087, 1086, 1083,
     1100, 1079, 1086, 1074, 1072, 1090, 1077, 1083, 1103, 46]"

definition apology_unavailable :: ustring where \<comment> \<open>"(cross mark) Izvinite, dietolog vremenno nedostupen. Pozhaluista, poprobuite pozzhe."\<close>
  "apology_unavailable =
    [10060, 32, 1048, 1079, 1074, 1080, 1085, 1080, 1090, 1077, 44, 32, 1076, 1080, 1077, 1090,
     1086, 1083, 1086, 1075, 32, 1074, 1088, 1077, 1084, 1077, 1085, 1085, 1086, 32, 1085,
     1077, 1076, 1086, 1089, 1090, 1091, 1087, 1077, 1085, 46, 32, 1055, 1086, 1078, 1072,
     1083, 1091, 1081, 1089, 1090, 1072, 44, 32, 1087, 1086, 1087, 1088, 1086, 1073, 1091,
     1081, 1090, 1077, 32, 1087, 1086, 1079, 1078, 1077, 46]"

definition apology_error :: ustring where \<comment> \<open>"(cross mark) Proizoshla oshibka. Poprobuite pozzhe."\<close>
  "apology_error =
    [10060, 32, 1055, 1088, 1086, 1080, 1079, 1086, 1096, 1083, 1072, 32, 1086, 1096, 1080,
     1073, 1082, 1072, 46, 32, 1055, 1086, 1087, 1088, 1086, 1073, 1091, 1081, 1090, 1077, 32,
     1087, 1086, 1079, 1078, 1077, 46]"

definition str_join :: "ustring \<Rightarrow> ustring list \<Rightarrow> ustring" where
  "str_join sep xs = (case xs of [] \<Rightarrow> [] | y # ys \<Rightarrow> y @ concat (map (\<lambda>z. sep @ z) ys))"

definition full_prompt :: "ustring \<Rightarrow> bool \<Rightarrow> bool \<Rightarrow> bool \<Rightarrow> ustring" where
  "full_prompt question has_diabetes has_gout has_celiac =
     (let diagnoses = (if has_diabetes then [diagnosis_diabetes] else [])
                      @ (if has_gout then [diagnosis_gout] else [])
                      @ (if has_celiac then [diagnosis_celiac] else []);
          diagnosis_context =
            (if diagnoses \<noteq> []
             then context_prefix @ str_join (ascii '', '') diagnoses @ ascii ''. ''
             else context_none)
      in diagnosis_context @ [10] @ prompt_question @ question @ [10] @ prompt_closing)"

text \<open>
  The body of \<open>ask_dietician\<close>, under its decorator: one call of the endpoint, the
  \<open>n\<close>-th, inside \<open>try\<close>. The two \<open>except\<close> clauses turn every exception into a
  returned apology, so the body never raises.
\<close>

definition ask_dietician_body ::
  "gpt_endpoint \<Rightarrow> nat \<Rightarrow> ustring \<Rightarrow> bool \<Rightarrow> bool \<Rightarrow> bool \<Rightarrow> int \<Rightarrow> py_exception + ustring"
  where
  "ask_dietician_body gpt n question has_diabetes has_gout has_celiac max_tokens =
     (let attempt =
            (case gpt n SYSTEM_PROMPT
                    (full_prompt question has_diabetes has_gout has_celiac) max_tokens of
               Reply content \<Rightarrow> Inr (str_strip content)
             | Raises exc \<Rightarrow> Inl exc)
      in case attempt of
           Inr answer \<Rightarrow> Inr answer
         | Inl exc \<Rightarrow> if is_APIError exc then Inr apology_unavailable else Inr apology_error)"

text \<open>
  The decorator \<open>@retry(stop=stop_after_attempt(3), wait=wait_exponential(multiplier=1,
  min=2, max=10), retry=retry_if_exception_type((APIError, APIConnectionError)))\<close>. It calls
  the body; a returned value is returned; an exception that the policy does not name is
  raised again; one that it names leads to a backoff sleep and another attempt, until the
  third attempt, after which \<open>RetryError\<close> is raised. The result records the number of
  attempts made and the attempts after which the wrapper slept; the length of each sleep is
  the library's business and is not modelled.
\<close>

datatype 'a outcome = Returned 'a | Raised py_exception | RetryError

definition retryable :: "py_exception \<Rightarrow> bool" where
  "retryable exc \<longleftrightarrow> is_APIError exc \<or> is_APIConnectionError exc"

definition stop_after_attempt :: nat where
  "stop_after_attempt = 3"

fun retry_loop ::
  "(nat \<Rightarrow> py_exception + 'a) \<Rightarrow> nat \<Rightarrow> nat \<Rightarrow> 'a outcome \<times> nat \<times> nat list" where
  "retry_loop fn attempt_number 0 = (RetryError, attempt_number, [])"
| "retry_loop fn attempt_number (Suc left) =
     (case fn attempt_number of
        Inr v \<Rightarrow> (Returned v, attempt_number, [])
      | Inl exc \<Rightarrow>
          if \<not> retryable exc then (Raised exc, attempt_number, [])
          else if left = 0 then (RetryError, attempt_number, [])
          else (let (out, attempts, sleeps) = retry_loop fn (attempt_number + 1) left
                in (out, attempts, attempt_number # sleeps)))"

text \<open>
  \<open>ask_dietician\<close> as callers see it: the outcome, the number of attempts and the sleeps.
  \<open>calls\<close> is the number of calls the endpoint has had before.
\<close>

definition ask_dietician ::
  "gpt_endpoint \<Rightarrow> nat \<Rightarrow> ustring \<Rightarrow> bool \<Rightarrow> bool \<Rightarrow> bool \<Rightarrow> int
     \<Rightarrow> ustring outcome \<times> nat \<times> nat list" where
  "ask_dietician gpt calls question has_diabetes has_gout has_celiac max_tokens =
     retry_loop
       (\<lambda>attempt_number. ask_dietician_body gpt (calls + attempt_number - 1) question
           has_diabetes has_gout has_celiac max_tokens)
       1 stop_after_attempt"


text \<open>An endpoint whose connection fails once and which answers from then on.\<close>

definition flaky_gpt :: gpt_endpoint where
  "flaky_gpt n system_prompt user_prompt max_tokens =
     (if n = 0 then Raises \<lparr>is_APIError = False, is_APIConnectionError = True\<rparr>
      else Reply (ascii ''Eat more vegetables.''))"

section \<open>The handlers\<close>

text \<open>
  The row of the table \<open>users\<close> that the handlers read: the Telegram identifier and the
  three diagnosis flags (which the diagnosis parameters of the services above receive).
\<close>

record user =
  telegram_id :: int
  user_has_diabetes :: bool
  user_has_gout :: bool
  user_has_celiac :: bool

text \<open>An incoming text message, and a press of an inline button.\<close>

record message =
  from_user_id :: int
  chat_id :: int
  message_text :: ustring

record callback =
  call_from_user_id :: int
  call_chat_id :: int
  call_data :: ustring

text \<open>
  What the bot sends. The texts are fixed Russian sentences around the data shown here; a
  message is identified by its kind and its data, not by its rendered text.
\<close>

datatype reply =
    SearchingNotice ustring
  | RecipesFound "recipe list"
  | RecipesNotFound
  | DieticianThinking
  | DieticianAnswer ustring
  | MainMenu
  | ErrorNotice
  | AskForQuery
  | AskForLocation
  | DiaryListing "ustring list"
  | DiaryEmpty
  | AskForQuestion
  | SettingsNotice

text \<open>
  The state the handlers work on: the module-level dictionary \<open>user_state\<close>
  (\<open>Dict[int, Dict[str, str]]\<close>), the tables of the database (of a diary row only the
  recipe name is kept), the messages sent so far, each with its chat, and the number of
  calls the language model has had.
\<close>

record world =
  user_state :: "int \<rightharpoonup> (ustring \<rightharpoonup> ustring)"
  users :: "int \<rightharpoonup> user"
  diary :: "int \<Rightarrow> ustring list"
  outbox :: "(int \<times> reply) list"
  gpt_calls :: nat

text \<open>
  The collaborators, which may fail: a database query raises when the database is down,
  the transport raises when it refuses a message, the language model is the endpoint above.
  \<open>max_recipe_results\<close> is the setting of that name.
\<close>

record env =
  db_ok :: bool
  send_ok :: "int \<times> reply \<Rightarrow> bool"
  ack_ok :: bool
  gpt :: gpt_endpoint
  max_recipe_results :: int

datatype exn = DatabaseError | TransportError | UpstreamError py_exception | RetryExhausted

text \<open>
  A step of a handler returns the exception it raised, if any, and the state it left.
\<close>

definition send_message :: "env \<Rightarrow> int \<Rightarrow> reply \<Rightarrow> world \<Rightarrow> exn option \<times> world" where
  "send_message e chat m w =
     (if send_ok e (chat, m) then (None, w\<lparr>outbox := outbox w @ [(chat, m)]\<rparr>)
      else (Some TransportError, w))"

definition get_or_create_user :: "env \<Rightarrow> int \<Rightarrow> world \<Rightarrow> (exn + user) \<times> world" where
  "get_or_create_user e uid w =
     (if \<not> db_ok e then (Inl DatabaseError, w)
      else case users w uid of
             Some u \<Rightarrow> (Inr u, w)
           | None \<Rightarrow>
               (let u = \<lparr>telegram_id = uid, user_has_diabetes = False,
                         user_has_gout = False, user_has_celiac = False\<rparr>
                in (Inr u, w\<lparr>users := (users w)(uid \<mapsto> u)\<rparr>)))"

text \<open>
  \<open>handle_callback\<close>: the \<open>try\<close> block, then the handler with its \<open>except\<close> clause.
\<close>

definition handle_callback_try :: "env \<Rightarrow> callback \<Rightarrow> world \<Rightarrow> exn option \<times> world" where
  "handle_callback_try e call w =
     (if \<not> ack_ok e then (Some TransportError, w)
      else if call_data call = ascii ''search_recipe'' then
        (case send_message e (call_chat_id call) AskForQuery w of
           (Some exc, w1) \<Rightarrow> (Some exc, w1)
         | (None, w1) \<Rightarrow>
             (None, w1\<lparr>user_state := (user_state w1)(call_from_user_id call \<mapsto>
                          [ascii ''action'' \<mapsto> ascii ''search_recipe''])\<rparr>))
      else if call_data call = ascii ''find_shops'' then
        (case send_message e (call_chat_id call) AskForLocation w of
           (Some exc, w1) \<Rightarrow> (Some exc, w1)
         | (None, w1) \<Rightarrow>
             (None, w1\<lparr>user_state := (user_state w1)(call_from_user_id call \<mapsto>
                          [ascii ''action'' \<mapsto> ascii ''find_shops''])\<rparr>))
      else if call_data call = ascii ''view_diary'' then
        (if \<not> db_ok e then (Some DatabaseError, w)
         else (let diary_entries = take 10 (diary w (call_from_user_id call))
               in if diary_entries \<noteq> []
                  then send_message e (call_chat_id call) (DiaryListing diary_entries) w
                  else send_message e (call_chat_id call) DiaryEmpty w))
      else if call_data call = ascii ''ask_dietician'' then
        (case send_message e (call_chat_id call) AskForQuestion w of
           (Some exc, w1) \<Rightarrow> (Some exc, w1)
         | (None, w1) \<Rightarrow>
             (None, w1\<lparr>user_state := (user_state w1)(call_from_user_id call \<mapsto>
                          [ascii ''action'' \<mapsto> ascii ''ask_dietician''])\<rparr>))
      else if call_data call = ascii ''settings'' then
        send_message e (call_chat_id call) SettingsNotice w
      else (None, w))"

definition handle_callback :: "env \<Rightarrow> callback \<Rightarrow> world \<Rightarrow> exn option \<times> world" where
  "handle_callback e call w =
     (case handle_callback_try e call w of
        (None, w1) \<Rightarrow> (None, w1)
      | (Some exc, w1) \<Rightarrow> send_message e (call_chat_id call) ErrorNotice w1)"

text \<open>
  \<open>handle_text\<close>: the \<open>try\<close> block. The branch for a user with a pending action has a
  case for \<open>search_recipe\<close> and one for \<open>ask_dietician\<close> and no \<open>else\<close>; the main menu
  is the \<open>else\<close> of the outer test, for a user with no entry in \<open>user_state\<close>.
\<close>

definition handle_text_try :: "env \<Rightarrow> message \<Rightarrow> world \<Rightarrow> exn option \<times> world" where
  "handle_text_try e msg w =
     (let user_id = from_user_id msg in
      case get_or_create_user e user_id w of
        (Inl exc, w1) \<Rightarrow> (Some exc, w1)
      | (Inr u, w1) \<Rightarrow>
          (case user_state w1 user_id of
             Some st \<Rightarrow>
               (let action = st (ascii ''action'') in
                if action = Some (ascii ''search_recipe'') then
                  (let query = message_text msg in
                   case send_message e (chat_id msg) (SearchingNotice query) w1 of
                     (Some exc, w2) \<Rightarrow> (Some exc, w2)
                   | (None, w2) \<Rightarrow>
                       (let recipes = search_recipes query (user_has_diabetes u)
                                        (user_has_gout u) (user_has_celiac u)
                                        (max_recipe_results e)
                        in case (if recipes \<noteq> []
                                 then send_message e (chat_id msg) (RecipesFound recipes) w2
                                 else send_message e (chat_id msg) RecipesNotFound w2) of
                             (Some exc, w3) \<Rightarrow> (Some exc, w3)
                           | (None, w3) \<Rightarrow>
                               (None, w3\<lparr>user_state := (user_state w3)(user_id := None)\<rparr>)))
                else if action = Some (ascii ''ask_dietician'') then
                  (case send_message e (chat_id msg) DieticianThinking w1 of
                     (Some exc, w2) \<Rightarrow> (Some exc, w2)
                   | (None, w2) \<Rightarrow>
                       (let (out, attempts, sleeps) =
                              ask_dietician (gpt e) (gpt_calls w2) (message_text msg)
                                (user_has_diabetes u) (user_has_gout u) (user_has_celiac u) 500;
                            w3 = w2\<lparr>gpt_calls := gpt_calls w2 + attempts\<rparr>
                        in case out of
                             Raised exc \<Rightarrow> (Some (UpstreamError exc), w3)
                           | RetryError \<Rightarrow> (Some RetryExhausted, w3)
                           | Returned response \<Rightarrow>
                               (case send_message e (chat_id msg) (DieticianAnswer response) w3 of
                                  (Some exc, w4) \<Rightarrow> (Some exc, w4)
                                | (None, w4) \<Rightarrow>
                                    (None, w4\<lparr>user_state :=
                                                (user_state w4)(user_id := None)\<rparr>))))
                else (None, w1))
           | None \<Rightarrow> send_message e (chat_id msg) MainMenu w1))"

definition handle_text :: "env \<Rightarrow> message \<Rightarrow> world \<Rightarrow> exn option \<times> world" where
  "handle_text e msg w =
     (case handle_text_try e msg w of
        (None, w1) \<Rightarrow> (None, w1)
      | (Some exc, w1) \<Rightarrow> send_message e (chat_id msg) ErrorNotice w1)"

text \<open>
  The bot as it starts (\<open>user_state = {}\<close>, an empty database), and collaborators that
  never fail, with the default \<open>max_recipe_results = 10\<close>.
\<close>

definition initial_world :: world where
  "initial_world =
     \<lparr>user_state = Map.empty, users = Map.empty, diary = (\<lambda>uid. []), outbox = [],
      gpt_calls = 0\<rparr>"

definition reliable_env :: env where
  "reliable_env =
     \<lparr>db_ok = True, send_ok = (\<lambda>m. True), ack_ok = True, gpt = flaky_gpt,
      max_recipe_results = 10\<rparr>"



section \<open>Facts about the Python values\<close>

lemma startswith_iff_prefix: "startswith s p \<longleftrightarrow> prefix p s"
  by (induction s p rule: startswith.induct) auto

lemma str_contains_iff_sublist: "str_contains needle s \<longleftrightarrow> sublist needle s"
  by (induction s) (auto simp: startswith_iff_prefix sublist_Cons_right)

lemma str_contains_empty: "str_contains [] s"
  by (simp add: str_contains_iff_sublist)

lemma slice_to_nonneg: "0 \<le> n \<Longrightarrow> slice_to xs n = take (nat n) xs"
  by (simp add: slice_to_def)

lemma slice_to_neg: "n < 0 \<Longrightarrow> slice_to xs n = take (length xs - nat (- n)) xs"
proof -
  assume "n < 0"
  then have "nat (int (length xs) + n) = length xs - nat (- n)" by arith
  with \<open>n < 0\<close> show ?thesis by (simp add: slice_to_def)
qed


lemma slice_to_length_mono:
  "length xs \<le> length ys \<Longrightarrow> length (slice_to xs n) \<le> length (slice_to ys n)"
  by (auto simp: slice_to_def)

lemma filter_length_mono:
  "(\<And>x. P x \<Longrightarrow> Q x) \<Longrightarrow> length (filter P xs) \<le> length (filter Q xs)"
  by (induction xs) auto

section \<open>The recipe search\<close>

lemma filter_by_diagnosis_loop_eq:
  "filter_by_diagnosis_loop rs d g c acc = acc @ filter (spec_recipe_kept d g c) rs"
  by (induction rs arbitrary: acc) (auto simp: spec_recipe_kept_def)

lemma filter_by_diagnosis_eq:
  "filter_by_diagnosis rs d g c = filter (spec_recipe_kept d g c) rs"
  by (simp add: filter_by_diagnosis_def filter_by_diagnosis_loop_eq)

lemma spec_recipe_kept_iff:
  "spec_recipe_kept d g c r \<longleftrightarrow>
     (d \<longrightarrow> glycemic_index r \<le> 60) \<and> (g \<longrightarrow> purines r \<le> 100) \<and> (c \<longrightarrow> suitable_for_celiac r)"
  by (auto simp: spec_recipe_kept_def)

lemma recipe_matches_iff:
  "recipe_matches q r \<longleftrightarrow>
     sublist q (str_lower (name_recipe r))
     \<or> (\<exists>ing \<in> set (ingredients r). sublist q (str_lower (name_ing ing)))"
  by (simp add: recipe_matches_def str_contains_iff_sublist list_ex_iff)

lemma search_recipes_eq:
  "search_recipes q d g c limit =
     slice_to (filter (\<lambda>r. recipe_matches (str_strip (str_lower q)) r \<and> spec_recipe_kept d g c r)
       MOCK_RECIPES) limit"
  by (simp add: search_recipes_def filter_by_diagnosis_eq conj_commute)

text \<open>The lower-cased names of the catalogue, for evaluating searches.\<close>

lemma lower_recipe_names:
  "str_lower (name_recipe recipe_1) =
     [1082, 1091, 1088, 1080, 1094, 1072, 32, 1089, 32, 1073, 1088, 1086, 1082, 1082, 1086,
      1083, 1080, 32, 1085, 1072, 32, 1087, 1072, 1088, 1091]"
  "str_lower (name_recipe recipe_2) =
     [1089, 1072, 1083, 1072, 1090, 32, 171, 1079, 1077, 1083, 1105, 1085, 1099, 1081, 32,
      1084, 1080, 1082, 1089, 187]"
  "str_lower (name_recipe recipe_3) =
     [1088, 1099, 1073, 1072, 32, 1085, 1072, 32, 1075, 1088, 1080, 1083, 1077]"
  by (simp_all add: recipe_1_def recipe_2_def recipe_3_def recipe_1_name_def
      recipe_2_name_def recipe_3_name_def str_lower_def lower_cp_def)

lemma lower_ingredient_names:
  "str_lower kurinoe_file =
     [1082, 1091, 1088, 1080, 1085, 1086, 1077, 32, 1092, 1080, 1083, 1077]"
  "str_lower brokkoli = [1073, 1088, 1086, 1082, 1082, 1086, 1083, 1080]"
  "str_lower olivkovoe_maslo =
     [1086, 1083, 1080, 1074, 1082, 1086, 1074, 1086, 1077, 32, 1084, 1072, 1089, 1083, 1086]"
  "str_lower sol_perec = [1089, 1086, 1083, 1100, 44, 32, 1087, 1077, 1088, 1077, 1094]"
  "str_lower listya_salata =
     [1083, 1080, 1089, 1090, 1100, 1103, 32, 1089, 1072, 1083, 1072, 1090, 1072]"
  "str_lower pomidory = [1087, 1086, 1084, 1080, 1076, 1086, 1088, 1099]"
  "str_lower ogurec = [1086, 1075, 1091, 1088, 1077, 1094]"
  "str_lower limonnyi_sok =
     [1083, 1080, 1084, 1086, 1085, 1085, 1099, 1081, 32, 1089, 1086, 1082]"
  "str_lower morskaya_ryba =
     [1084, 1086, 1088, 1089, 1082, 1072, 1103, 32, 1088, 1099, 1073, 1072]"
  "str_lower limon = [1083, 1080, 1084, 1086, 1085]"
  "str_lower zelen = [1079, 1077, 1083, 1077, 1085, 1100]"
  by (simp_all add: kurinoe_file_def brokkoli_def olivkovoe_maslo_def sol_perec_def
      listya_salata_def pomidory_def ogurec_def limonnyi_sok_def morskaya_ryba_def limon_def
      zelen_def str_lower_def lower_cp_def)

lemma recipe_ingredients:
  "map name_ing (ingredients recipe_1) = [kurinoe_file, brokkoli, olivkovoe_maslo, sol_perec]"
  "map name_ing (ingredients recipe_2) =
     [listya_salata, pomidory, ogurec, olivkovoe_maslo, limonnyi_sok]"
  "map name_ing (ingredients recipe_3) = [morskaya_ryba, limon, zelen]"
  by (simp_all add: recipe_1_def recipe_2_def recipe_3_def)

lemma recipe_matches_eval:
  "recipe_matches q r \<longleftrightarrow>
     str_contains q (str_lower (name_recipe r))
     \<or> list_ex (str_contains q) (map str_lower (map name_ing (ingredients r)))"
  by (simp add: recipe_matches_def list_ex_iff)

lemma recipe_diagnosis_fields:
  "glycemic_index recipe_1 = 35" "purines recipe_1 = 45" "suitable_for_celiac recipe_1"
  "glycemic_index recipe_2 = 20" "purines recipe_2 = 5" "suitable_for_celiac recipe_2"
  "glycemic_index recipe_3 = 10" "purines recipe_3 = 120" "suitable_for_celiac recipe_3"
  by (simp_all add: recipe_1_def recipe_2_def recipe_3_def)

text \<open>The query \<open>" kuritsa"\<close> (chicken, after a space), and what is left of it once stripped.\<close>

lemma kuritsa_stripped:
  "str_strip (str_lower [32, 1082, 1091, 1088, 1080, 1094, 1072]) =
     [1082, 1091, 1088, 1080, 1094, 1072]"
  "str_lower [32, 1082, 1091, 1088, 1080, 1094, 1072] =
     [32, 1082, 1091, 1088, 1080, 1094, 1072]"
  "str_strip [32, 1082, 1091, 1088, 1080, 1094, 1072] = [1082, 1091, 1088, 1080, 1094, 1072]"
  by (simp_all add: str_strip_def str_lower_def lower_cp_def isspace_def)

lemma kuritsa_matches:
  "recipe_matches [1082, 1091, 1088, 1080, 1094, 1072] recipe_1"
  "\<not> recipe_matches [1082, 1091, 1088, 1080, 1094, 1072] recipe_2"
  "\<not> recipe_matches [1082, 1091, 1088, 1080, 1094, 1072] recipe_3"
  "\<not> recipe_matches [32, 1082, 1091, 1088, 1080, 1094, 1072] recipe_1"
  "\<not> recipe_matches [32, 1082, 1091, 1088, 1080, 1094, 1072] recipe_2"
  "\<not> recipe_matches [32, 1082, 1091, 1088, 1080, 1094, 1072] recipe_3"
  by (simp_all add: recipe_matches_eval recipe_ingredients lower_recipe_names
      lower_ingredient_names)

lemma search_kuritsa:
  "search_recipes [32, 1082, 1091, 1088, 1080, 1094, 1072] False False False 10 = [recipe_1]"
  by (simp add: search_recipes_eq kuritsa_stripped kuritsa_matches MOCK_RECIPES_def
      spec_recipe_kept_def slice_to_def)




text \<open>The query \<open>"Limon "\<close> (lemon, capitalised, a space after it).\<close>

lemma limon_stripped:
  "str_strip (str_lower [1051, 1080, 1084, 1086, 1085, 32]) = [1083, 1080, 1084, 1086, 1085]"
  by (simp add: str_strip_def str_lower_def lower_cp_def isspace_def)

lemma limon_matches:
  "\<not> recipe_matches [1083, 1080, 1084, 1086, 1085] recipe_1"
  "recipe_matches [1083, 1080, 1084, 1086, 1085] recipe_2"
  "recipe_matches [1083, 1080, 1084, 1086, 1085] recipe_3"
  by (simp_all add: recipe_matches_eval recipe_ingredients lower_recipe_names
      lower_ingredient_names)

text \<open>
  C2. \<open>_filter_by_diagnosis\<close> keeps, in their order, exactly the recipes that pass every
  enabled rule: a recipe is dropped when the diabetes flag is set and its glycemic index is
  above 60, when the gout flag is set and its purine content is above 100, or when the celiac
  flag is set and it is not suitable for celiac disease; every other recipe is kept.
\<close>

theorem filter_by_diagnosis_keeps_passing:
  "filter_by_diagnosis recipes has_diabetes has_gout has_celiac =
     filter (\<lambda>r. \<not> (has_diabetes \<and> glycemic_index r > 60)
                 \<and> \<not> (has_gout \<and> purines r > 100)
                 \<and> \<not> (has_celiac \<and> \<not> suitable_for_celiac r)) recipes"
proof -
  have "spec_recipe_kept has_diabetes has_gout has_celiac =
          (\<lambda>r. \<not> (has_diabetes \<and> glycemic_index r > 60)
               \<and> \<not> (has_gout \<and> purines r > 100)
               \<and> \<not> (has_celiac \<and> \<not> suitable_for_celiac r))"
    by (rule ext) (simp add: spec_recipe_kept_def)
  then show ?thesis
    by (simp add: filter_by_diagnosis_eq)
qed

theorem filter_by_diagnosis_keeps_passing_witness:
  "filter_by_diagnosis
     [recipe_1\<lparr>glycemic_index := 70\<rparr>, recipe_2, recipe_3,
      recipe_2\<lparr>suitable_for_celiac := False\<rparr>] True True True = [recipe_2]"
  using filter_by_diagnosis_keeps_passing
    [of "[recipe_1\<lparr>glycemic_index := 70\<rparr>, recipe_2, recipe_3,
          recipe_2\<lparr>suitable_for_celiac := False\<rparr>]" True True True]
  by (simp add: recipe_diagnosis_fields)

text \<open>
  C1, as the code has it. \<open>search_recipes\<close> lower-cases the query and strips the white
  space around it. It returns the recipes of the catalogue whose lower-cased name, or the
  lower-cased name of one of whose ingredients, contains that string, and that pass the
  enabled diagnosis rules, in catalogue order: the first \<open>limit\<close> of them when \<open>limit\<close>
  is not negative, and all but the last \<open>-limit\<close> of them when it is. The empty query matches
  every recipe.
\<close>

theorem search_recipes_result:
  "search_recipes query has_diabetes has_gout has_celiac limit =
     (let q = str_strip (str_lower query);
          hits = filter (\<lambda>r. (sublist q (str_lower (name_recipe r))
                               \<or> (\<exists>ing \<in> set (ingredients r). sublist q (str_lower (name_ing ing))))
                             \<and> (has_diabetes \<longrightarrow> glycemic_index r \<le> 60)
                             \<and> (has_gout \<longrightarrow> purines r \<le> 100)
                             \<and> (has_celiac \<longrightarrow> suitable_for_celiac r)) MOCK_RECIPES
      in if 0 \<le> limit then take (nat limit) hits
         else take (length hits - nat (- limit)) hits)
   \<and> search_recipes [] False False False limit =
       (if 0 \<le> limit then take (nat limit) MOCK_RECIPES
        else take (length MOCK_RECIPES - nat (- limit)) MOCK_RECIPES)"
proof
  show "search_recipes query has_diabetes has_gout has_celiac limit =
     (let q = str_strip (str_lower query);
          hits = filter (\<lambda>r. (sublist q (str_lower (name_recipe r))
                               \<or> (\<exists>ing \<in> set (ingredients r). sublist q (str_lower (name_ing ing))))
                             \<and> (has_diabetes \<longrightarrow> glycemic_index r \<le> 60)
                             \<and> (has_gout \<longrightarrow> purines r \<le> 100)
                             \<and> (has_celiac \<longrightarrow> suitable_for_celiac r)) MOCK_RECIPES
      in if 0 \<le> limit then take (nat limit) hits
         else take (length hits - nat (- limit)) hits)"
    by (cases "0 \<le> limit")
      (simp_all add: search_recipes_eq recipe_matches_iff spec_recipe_kept_iff Let_def
        slice_to_nonneg slice_to_neg)
next
  have "str_strip (str_lower []) = ([] :: ustring)"
    by (simp add: str_strip_def str_lower_def)
  moreover have "recipe_matches [] r" for r
    by (simp add: recipe_matches_def str_contains_empty)
  ultimately have "search_recipes [] False False False limit = slice_to MOCK_RECIPES limit"
    by (simp add: search_recipes_eq spec_recipe_kept_def)
  then show "search_recipes [] False False False limit =
       (if 0 \<le> limit then take (nat limit) MOCK_RECIPES
        else take (length MOCK_RECIPES - nat (- limit)) MOCK_RECIPES)"
    by (cases "0 \<le> limit") (simp_all add: slice_to_nonneg slice_to_neg)
qed

theorem search_recipes_result_witness:
  "search_recipes [1051, 1080, 1084, 1086, 1085, 32] False True False 10 = [recipe_2]"
proof -
  have hits: "filter (\<lambda>r. recipe_matches [1083, 1080, 1084, 1086, 1085] r
                        \<and> purines r \<le> 100) MOCK_RECIPES = [recipe_2]"
    by (simp add: MOCK_RECIPES_def limon_matches recipe_diagnosis_fields)
  show ?thesis
    using search_recipes_result [of "[1051, 1080, 1084, 1086, 1085, 32]" False True False 10]
    by (simp add: limon_stripped recipe_matches_iff [symmetric] hits)
qed

text \<open>
  C1, as the claim has it, fails: the query \<open>" kuritsa"\<close> with a space before it is not
  a substring of any lower-cased name, yet the search, which strips it, returns the chicken
  recipe.
\<close>

theorem search_recipes_strips_query_counterexample:
  "search_recipes [32, 1082, 1091, 1088, 1080, 1094, 1072] False False False 10 = [recipe_1]
   \<and> spec_search_recipes [32, 1082, 1091, 1088, 1080, 1094, 1072] False False False 10 = []"
  by (simp add: search_kuritsa spec_search_recipes_def kuritsa_stripped kuritsa_matches
      MOCK_RECIPES_def)

text \<open>
  C8. For a fixed query, limit and setting of the other two flags, enabling the diabetes flag,
  the gout flag or the celiac flag never makes \<open>search_recipes\<close> return more recipes.
\<close>

theorem search_recipes_flag_monotone:
  "length (search_recipes query True has_gout has_celiac limit)
     \<le> length (search_recipes query False has_gout has_celiac limit)
   \<and> length (search_recipes query has_diabetes True has_celiac limit)
     \<le> length (search_recipes query has_diabetes False has_celiac limit)
   \<and> length (search_recipes query has_diabetes has_gout True limit)
     \<le> length (search_recipes query has_diabetes has_gout False limit)"
proof (intro conjI)
  show "length (search_recipes query True has_gout has_celiac limit)
          \<le> length (search_recipes query False has_gout has_celiac limit)"
    unfolding search_recipes_eq
    by (rule slice_to_length_mono, rule filter_length_mono) (simp add: spec_recipe_kept_def)
  show "length (search_recipes query has_diabetes True has_celiac limit)
          \<le> length (search_recipes query has_diabetes False has_celiac limit)"
    unfolding search_recipes_eq
    by (rule slice_to_length_mono, rule filter_length_mono) (simp add: spec_recipe_kept_def)
  show "length (search_recipes query has_diabetes has_gout True limit)
          \<le> length (search_recipes query has_diabetes has_gout False limit)"
    unfolding search_recipes_eq
    by (rule slice_to_length_mono, rule filter_length_mono) (simp add: spec_recipe_kept_def)
qed

section \<open>Prices\<close>

lemma price_loop_eq:
  "price_loop t ings tot found =
     (tot + (\<Sum>ing\<leftarrow>ings. case map_of t (name_ing ing) of None \<Rightarrow> 0 | Some p \<Rightarrow> p),
      found + int (length (filter (\<lambda>ing. \<exists>p. map_of t (name_ing ing) = Some p \<and> p \<noteq> 0) ings)))"
  by (induction ings arbitrary: tot found) (auto split: option.splits)

lemma shop_price_entry_fields:
  "total_price (shop_price_entry s ings) =
     (\<Sum>ing\<leftarrow>ings. case map_of (case map_of MOCK_PRICES (id_shop s) of None \<Rightarrow> [] | Some t \<Rightarrow> t)
                         (name_ing ing) of None \<Rightarrow> 0 | Some p \<Rightarrow> p)"
  "found_ingredients (shop_price_entry s ings) =
     int (length (filter (\<lambda>ing. \<exists>p. map_of (case map_of MOCK_PRICES (id_shop s) of
                                                 None \<Rightarrow> [] | Some t \<Rightarrow> t) (name_ing ing) = Some p
                                     \<and> p \<noteq> 0) ings))"
  "total_ingredients (shop_price_entry s ings) = int (length ings)"
  "price_per_serving (shop_price_entry s ings) =
     (if ings = [] then 0
      else round2 (total_price (shop_price_entry s ings) / real (length ings)))"
  "shop_id (shop_price_entry s ings) = None"
  by (simp_all add: shop_price_entry_def price_loop_eq Let_def)

section \<open>The cheapest shop\<close>

lemma min_loop_first_minimum:
  "\<exists>pre post. best # xs = pre @ min_loop key best xs # post
     \<and> (\<forall>x \<in> set pre. key (min_loop key best xs) < key x)
     \<and> (\<forall>x \<in> set post. key (min_loop key best xs) \<le> key x)"
proof (induction xs arbitrary: best)
  case Nil
  have "[best] = [] @ min_loop key best [] # []" by simp
  then show ?case by fastforce
next
  case (Cons x xs)
  show ?case
  proof (cases "key x < key best")
    case True
    then have step: "min_loop key best (x # xs) = min_loop key x xs" by simp
    from Cons.IH [of x] obtain pre post where
      d: "x # xs = pre @ min_loop key x xs # post"
      and lt: "\<forall>y \<in> set pre. key (min_loop key x xs) < key y"
      and le: "\<forall>y \<in> set post. key (min_loop key x xs) \<le> key y"
      by blast
    have "key (min_loop key x xs) \<le> key x"
    proof (cases pre)
      case Nil
      with d have "min_loop key x xs = x" by (metis append_Nil list.inject)
      then show ?thesis by simp
    next
      case (Cons p ps)
      with d have "x \<in> set pre" by (metis append_Cons list.inject list.set_intros(1))
      with lt show ?thesis by force
    qed
    with True have "key (min_loop key x xs) < key best" by simp
    with lt have lt': "\<forall>y \<in> set (best # pre). key (min_loop key x xs) < key y" by simp
    from d have "best # x # xs = (best # pre) @ min_loop key x xs # post" by simp
    with lt' le show ?thesis unfolding step by blast
  next
    case False
    then have step: "min_loop key best (x # xs) = min_loop key best xs" by simp
    from Cons.IH [of best] obtain pre post where
      d: "best # xs = pre @ min_loop key best xs # post"
      and lt: "\<forall>y \<in> set pre. key (min_loop key best xs) < key y"
      and le: "\<forall>y \<in> set post. key (min_loop key best xs) \<le> key y"
      by blast
    show ?thesis
    proof (cases pre)
      case Nil
      with d have m: "min_loop key best xs = best" and post: "post = xs"
        by (metis append_Nil list.inject)+
      from m have "best # x # xs = [] @ min_loop key best xs # (x # xs)" by simp
      moreover from le False m post
      have "\<forall>y \<in> set (x # xs). key (min_loop key best xs) \<le> key y" by simp
      ultimately show ?thesis unfolding step by fastforce
    next
      case (Cons p ps)
      with d have p: "p = best" and xs: "xs = ps @ min_loop key best xs # post"
        by (metis append_Cons list.inject)+
      from lt Cons p have "key (min_loop key best xs) < key best" by simp
      with False have "key (min_loop key best xs) < key x" by simp
      with lt Cons p
      have lt': "\<forall>y \<in> set (best # x # ps). key (min_loop key best xs) < key y" by simp
      from xs have "best # x # xs = (best # x # ps) @ min_loop key best xs # post" by simp
      with lt' le show ?thesis unfolding step by blast
    qed
  qed
qed

lemma find_cheapest_shop_decomp:
  assumes "prices \<noteq> []"
  shows "\<exists>pre sid r post. prices = pre @ (sid, r) # post
     \<and> (\<forall>x \<in> set pre. total_price (h r) < total_price (h (snd x)))
     \<and> (\<forall>x \<in> set post. total_price (h r) \<le> total_price (h (snd x)))
     \<and> find_cheapest_shop prices h = (Some r, h(r := (h r)\<lparr>shop_id := Some sid\<rparr>))"
proof -
  from assms obtain item items where p: "prices = item # items"
    by (cases prices) auto
  define m where "m = min_loop (\<lambda>x. total_price (h (snd x))) item items"
  from min_loop_first_minimum [of item items "\<lambda>x. total_price (h (snd x))"]
  obtain pre post where d: "item # items = pre @ m # post"
    and lt: "\<forall>x \<in> set pre. total_price (h (snd m)) < total_price (h (snd x))"
    and le: "\<forall>x \<in> set post. total_price (h (snd m)) \<le> total_price (h (snd x))"
    unfolding m_def by blast
  have "find_cheapest_shop prices h =
          (Some (snd m), h(snd m := (h (snd m))\<lparr>shop_id := Some (fst m)\<rparr>))"
    by (simp add: find_cheapest_shop_def p m_def [symmetric] split_beta)
  moreover from d p have "prices = pre @ (fst m, snd m) # post" by simp
  ultimately show ?thesis using lt le by blast
qed










text \<open>
  C7. On an empty price map \<open>find_cheapest_shop\<close> returns nothing. On a non-empty one it
  returns the dictionary of an item whose \<open>total_price\<close> is minimal, and of the items with
  that minimal total the first one in insertion order: every item before it has a strictly
  greater total, every item after it a total that is not smaller. The returned dictionary has
  the total it had in the map.
\<close>

theorem find_cheapest_shop_first_minimum:
  "find_cheapest_shop [] h = (None, h)
   \<and> (prices \<noteq> [] \<longrightarrow>
        (\<exists>pre sid r post. prices = pre @ (sid, r) # post
           \<and> fst (find_cheapest_shop prices h) = Some r
           \<and> (\<forall>x \<in> set pre. total_price (h r) < total_price (h (snd x)))
           \<and> (\<forall>x \<in> set post. total_price (h r) \<le> total_price (h (snd x)))
           \<and> total_price (snd (find_cheapest_shop prices h) r) = total_price (h r)))"
proof (intro conjI impI)
  show "find_cheapest_shop [] h = (None, h)"
    by (simp add: find_cheapest_shop_def)
next
  assume "prices \<noteq> []"
  from find_cheapest_shop_decomp [OF this, of h] obtain pre sid r post where
    "prices = pre @ (sid, r) # post"
    "\<forall>x \<in> set pre. total_price (h r) < total_price (h (snd x))"
    "\<forall>x \<in> set post. total_price (h r) \<le> total_price (h (snd x))"
    "find_cheapest_shop prices h = (Some r, h(r := (h r)\<lparr>shop_id := Some sid\<rparr>))"
    by blast
  then show "\<exists>pre sid r post. prices = pre @ (sid, r) # post
           \<and> fst (find_cheapest_shop prices h) = Some r
           \<and> (\<forall>x \<in> set pre. total_price (h r) < total_price (h (snd x)))
           \<and> (\<forall>x \<in> set post. total_price (h r) \<le> total_price (h (snd x)))
           \<and> total_price (snd (find_cheapest_shop prices h) r) = total_price (h r)"
    by (intro exI [of _ pre] exI [of _ sid] exI [of _ r] exI [of _ post]) simp
qed

text \<open>
  A price map of three items whose totals are 5, 3 and 3: the second item, the first of the
  two cheapest, is returned.
\<close>

theorem find_cheapest_shop_first_minimum_witness:
  "[(ascii ''a'', 0), (ascii ''b'', 1), (ascii ''c'', 2 :: ref)] \<noteq> []
   \<and> fst (find_cheapest_shop [(ascii ''a'', 0), (ascii ''b'', 1), (ascii ''c'', 2)]
        ((\<lambda>r. shop_price_entry shop_1 [])
           (0 := (shop_price_entry shop_1 [])\<lparr>total_price := 5\<rparr>,
            1 := (shop_price_entry shop_1 [])\<lparr>total_price := 3\<rparr>,
            2 := (shop_price_entry shop_1 [])\<lparr>total_price := 3\<rparr>))) = Some 1
   \<and> (\<exists>pre sid r post.
         [(ascii ''a'', 0), (ascii ''b'', 1), (ascii ''c'', 2)] = pre @ (sid, r) # post
         \<and> fst (find_cheapest_shop [(ascii ''a'', 0), (ascii ''b'', 1), (ascii ''c'', 2)]
              ((\<lambda>r. shop_price_entry shop_1 [])
                 (0 := (shop_price_entry shop_1 [])\<lparr>total_price := 5\<rparr>,
                  1 := (shop_price_entry shop_1 [])\<lparr>total_price := 3\<rparr>,
                  2 := (shop_price_entry shop_1 [])\<lparr>total_price := 3\<rparr>))) = Some r)"
proof -
  let ?prices = "[(ascii ''a'', 0), (ascii ''b'', 1), (ascii ''c'', 2 :: ref)]"
  let ?h = "(\<lambda>r. shop_price_entry shop_1 [])
           (0 := (shop_price_entry shop_1 [])\<lparr>total_price := 5\<rparr>,
            1 := (shop_price_entry shop_1 [])\<lparr>total_price := 3\<rparr>,
            2 := (shop_price_entry shop_1 [])\<lparr>total_price := 3\<rparr>)"
  have ne: "?prices \<noteq> []" by simp
  have ev: "fst (find_cheapest_shop ?prices ?h) = Some 1"
    by (simp add: find_cheapest_shop_def)
  from find_cheapest_shop_first_minimum [of ?h ?prices] ne
  have "\<exists>pre sid r post. ?prices = pre @ (sid, r) # post
          \<and> fst (find_cheapest_shop ?prices ?h) = Some r"
    by blast
  with ne ev show ?thesis by blast
qed

text \<open>
  C10. On a non-empty price map \<open>find_cheapest_shop\<close> returns the reference that the map
  itself holds for an item of minimal \<open>total_price\<close>, not a copy. In the store after the
  call that dictionary has the key \<open>shop_id\<close>, set to the item's key, and is otherwise as
  before; every other dictionary of the store is unchanged.
\<close>

theorem find_cheapest_shop_mutates_minimum:
  "prices \<noteq> [] \<Longrightarrow>
     \<exists>sid r. (sid, r) \<in> set prices
       \<and> (\<forall>x \<in> set prices. total_price (h r) \<le> total_price (h (snd x)))
       \<and> fst (find_cheapest_shop prices h) = Some r
       \<and> snd (find_cheapest_shop prices h) r = (h r)\<lparr>shop_id := Some sid\<rparr>
       \<and> (\<forall>r'. r' \<noteq> r \<longrightarrow> snd (find_cheapest_shop prices h) r' = h r')"
proof -
  assume "prices \<noteq> []"
  from find_cheapest_shop_decomp [OF this, of h] obtain pre sid r post where
    d: "prices = pre @ (sid, r) # post"
    and lt: "\<forall>x \<in> set pre. total_price (h r) < total_price (h (snd x))"
    and le: "\<forall>x \<in> set post. total_price (h r) \<le> total_price (h (snd x))"
    and res: "find_cheapest_shop prices h = (Some r, h(r := (h r)\<lparr>shop_id := Some sid\<rparr>))"
    by blast
  from d have "(sid, r) \<in> set prices" by simp
  moreover from d lt le
  have "\<forall>x \<in> set prices. total_price (h r) \<le> total_price (h (snd x))" by force
  ultimately show ?thesis
    using res by (intro exI [of _ sid] exI [of _ r]) simp
qed

text \<open>
  The same three items: the dictionary at reference 1 gets \<open>shop_id = "b"\<close>, the
  dictionaries at references 0 and 2 keep having none.
\<close>

theorem find_cheapest_shop_mutates_minimum_witness:
  "[(ascii ''a'', 0), (ascii ''b'', 1), (ascii ''c'', 2 :: ref)] \<noteq> []
   \<and> map (shop_id \<circ> snd (find_cheapest_shop [(ascii ''a'', 0), (ascii ''b'', 1), (ascii ''c'', 2)]
        ((\<lambda>r. shop_price_entry shop_1 [])
           (0 := (shop_price_entry shop_1 [])\<lparr>total_price := 5\<rparr>,
            1 := (shop_price_entry shop_1 [])\<lparr>total_price := 3\<rparr>,
            2 := (shop_price_entry shop_1 [])\<lparr>total_price := 3\<rparr>)))) [0, 1, 2]
       = [None, Some (ascii ''b''), None]
   \<and> (\<exists>r. fst (find_cheapest_shop [(ascii ''a'', 0), (ascii ''b'', 1), (ascii ''c'', 2)]
        ((\<lambda>r. shop_price_entry shop_1 [])
           (0 := (shop_price_entry shop_1 [])\<lparr>total_price := 5\<rparr>,
            1 := (shop_price_entry shop_1 [])\<lparr>total_price := 3\<rparr>,
            2 := (shop_price_entry shop_1 [])\<lparr>total_price := 3\<rparr>))) = Some r
        \<and> r \<in> snd ` set [(ascii ''a'', 0), (ascii ''b'', 1), (ascii ''c'', 2)])"
proof -
  let ?prices = "[(ascii ''a'', 0), (ascii ''b'', 1), (ascii ''c'', 2 :: ref)]"
  let ?h = "(\<lambda>r. shop_price_entry shop_1 [])
           (0 := (shop_price_entry shop_1 [])\<lparr>total_price := 5\<rparr>,
            1 := (shop_price_entry shop_1 [])\<lparr>total_price := 3\<rparr>,
            2 := (shop_price_entry shop_1 [])\<lparr>total_price := 3\<rparr>)"
  have ne: "?prices \<noteq> []" by simp
  have ev: "map (shop_id \<circ> snd (find_cheapest_shop ?prices ?h)) [0, 1, 2]
              = [None, Some (ascii ''b''), None]"
    by (simp add: find_cheapest_shop_def shop_price_entry_fields)
  from find_cheapest_shop_mutates_minimum [OF ne, of ?h]
  obtain sid r where "(sid, r) \<in> set ?prices" "fst (find_cheapest_shop ?prices ?h) = Some r"
    by blast
  then have "\<exists>r. fst (find_cheapest_shop ?prices ?h) = Some r \<and> r \<in> snd ` set ?prices"
    by force
  with ne ev show ?thesis by blast
qed

section \<open>Nearby shops\<close>




















section \<open>The dietician\<close>

lemma ask_dietician_body_returns:
  "\<exists>s. ask_dietician_body endpoint n question d g c max_tokens = Inr s"
  by (simp add: ask_dietician_body_def Let_def split: upstream.split)

lemma ask_dietician_single_attempt:
  "\<exists>s. ask_dietician endpoint calls question d g c max_tokens = (Returned s, 1, [])"
proof -
  obtain s where "ask_dietician_body endpoint calls question d g c max_tokens = Inr s"
    using ask_dietician_body_returns by blast
  then have "ask_dietician endpoint calls question d g c max_tokens = (Returned s, 1, [])"
    by (simp add: ask_dietician_def stop_after_attempt_def numeral_3_eq_3)
  then show ?thesis by blast
qed



section \<open>The conversation\<close>

lemma action_tags_distinct:
  "ascii ''find_shops'' \<noteq> ascii ''search_recipe''"
  "ascii ''find_shops'' \<noteq> ascii ''ask_dietician''"
  "ascii ''search_recipe'' \<noteq> ascii ''find_shops''"
  "ascii ''search_recipe'' \<noteq> ascii ''ask_dietician''"
  by (simp_all add: ascii_def)

lemma get_or_create_user_ok:
  "db_ok e \<Longrightarrow>
     \<exists>w1. get_or_create_user e uid w =
        (Inr (case users w uid of
                Some p \<Rightarrow> p
              | None \<Rightarrow> \<lparr>telegram_id = uid, user_has_diabetes = False,
                          user_has_gout = False, user_has_celiac = False\<rparr>), w1)
       \<and> user_state w1 = user_state w \<and> outbox w1 = outbox w \<and> gpt_calls w1 = gpt_calls w"
  by (simp add: get_or_create_user_def Let_def split: option.split)

lemma get_or_create_user_down:
  "\<not> db_ok e \<Longrightarrow> get_or_create_user e uid w = (Inl DatabaseError, w)"
  by (simp add: get_or_create_user_def)

lemma send_message_user_state:
  "user_state (snd (send_message e chat m w)) = user_state w"
  by (simp add: send_message_def)

lemma handle_text_try_find_shops:
  assumes "user_state w (from_user_id msg) = Some st"
    and "st (ascii ''action'') = Some (ascii ''find_shops'')"
  shows "user_state (snd (handle_text_try e msg w)) = user_state w"
    and "db_ok e \<Longrightarrow> fst (handle_text_try e msg w) = None"
    and "db_ok e \<Longrightarrow> outbox (snd (handle_text_try e msg w)) = outbox w"
proof -
  show "user_state (snd (handle_text_try e msg w)) = user_state w"
  proof (cases "db_ok e")
    case True
    from get_or_create_user_ok [OF True, of "from_user_id msg" w] obtain u w1 where
      "get_or_create_user e (from_user_id msg) w = (Inr u, w1)" "user_state w1 = user_state w"
      by blast
    with assms show ?thesis
      by (simp add: handle_text_try_def Let_def action_tags_distinct)
  next
    case False
    then show ?thesis
      by (simp add: handle_text_try_def Let_def get_or_create_user_down)
  qed
next
  assume db: "db_ok e"
  from get_or_create_user_ok [OF db, of "from_user_id msg" w] obtain u w1 where
    "get_or_create_user e (from_user_id msg) w = (Inr u, w1)" "user_state w1 = user_state w"
    "outbox w1 = outbox w"
    by blast
  with assms show "fst (handle_text_try e msg w) = None"
    and "outbox (snd (handle_text_try e msg w)) = outbox w"
    by (simp_all add: handle_text_try_def Let_def action_tags_distinct)
qed

lemma handle_text_idle:
  assumes "user_state w (from_user_id msg) = None" and "db_ok e"
    and "send_ok e (chat_id msg, MainMenu)"
  shows "fst (handle_text e msg w) = None
     \<and> outbox (snd (handle_text e msg w)) = outbox w @ [(chat_id msg, MainMenu)]
     \<and> user_state (snd (handle_text e msg w)) = user_state w"
proof -
  from get_or_create_user_ok [OF assms(2), of "from_user_id msg" w]
  obtain u w1 where g: "get_or_create_user e (from_user_id msg) w = (Inr u, w1)"
    and w1: "user_state w1 = user_state w" "outbox w1 = outbox w"
    by blast
  with assms have "handle_text_try e msg w =
      (None, w1\<lparr>outbox := outbox w1 @ [(chat_id msg, MainMenu)]\<rparr>)"
    by (simp add: handle_text_try_def Let_def send_message_def)
  with w1 show ?thesis
    by (simp add: handle_text_def)
qed

text \<open>
  C5, as the code has it. A text message from a user whose pending action is
  \<open>find_shops\<close> leaves \<open>user_state\<close> as it is, and nothing is sent in answer: when the
  profile lookup succeeds the handler ends with the messages sent so far unchanged. The main
  menu is not presented.
\<close>

theorem handle_text_find_shops_ignored:
  assumes "user_state w (from_user_id msg) = Some st"
    and "st (ascii ''action'') = Some (ascii ''find_shops'')"
  shows "user_state (snd (handle_text e msg w)) = user_state w
     \<and> (db_ok e \<longrightarrow> handle_text e msg w = (None, snd (handle_text e msg w))
                     \<and> outbox (snd (handle_text e msg w)) = outbox w)"
proof -
  obtain x w1 where t: "handle_text_try e msg w = (x, w1)"
    by (cases "handle_text_try e msg w")
  from handle_text_try_find_shops [OF assms, of e] t
  have us: "user_state w1 = user_state w"
    and ok: "db_ok e \<Longrightarrow> x = None" "db_ok e \<Longrightarrow> outbox w1 = outbox w"
    by simp_all
  have "user_state (snd (handle_text e msg w)) = user_state w"
    using t us by (cases x) (simp_all add: handle_text_def send_message_user_state)
  moreover have "handle_text e msg w = (None, snd (handle_text e msg w))
      \<and> outbox (snd (handle_text e msg w)) = outbox w" if "db_ok e"
    using t ok [OF that] by (simp add: handle_text_def)
  ultimately show ?thesis by blast
qed


text \<open>
  User 7 presses a button of the main menu of the freshly started bot, and then types.
\<close>

lemma after_find_shops_button:
  "handle_callback reliable_env
     \<lparr>call_from_user_id = 7, call_chat_id = 7, call_data = ascii ''find_shops''\<rparr> initial_world
   = (None, \<lparr>user_state = [7 \<mapsto> [ascii ''action'' \<mapsto> ascii ''find_shops'']],
              users = Map.empty, diary = (\<lambda>uid. []), outbox = [(7, AskForLocation)],
              gpt_calls = 0\<rparr>)"
  by (simp add: handle_callback_def handle_callback_try_def send_message_def reliable_env_def
      initial_world_def action_tags_distinct)


theorem handle_text_find_shops_ignored_witness:
  "user_state (snd (handle_callback reliable_env
       \<lparr>call_from_user_id = 7, call_chat_id = 7, call_data = ascii ''find_shops''\<rparr>
       initial_world)) 7 = Some [ascii ''action'' \<mapsto> ascii ''find_shops'']
   \<and> [ascii ''action'' \<mapsto> ascii ''find_shops''] (ascii ''action'')
       = Some (ascii ''find_shops'')
   \<and> db_ok reliable_env
   \<and> user_state (snd (handle_text reliable_env
         \<lparr>from_user_id = 7, chat_id = 7, message_text = ascii ''hello''\<rparr>
         (snd (handle_callback reliable_env
            \<lparr>call_from_user_id = 7, call_chat_id = 7, call_data = ascii ''find_shops''\<rparr>
            initial_world)))) 7 = Some [ascii ''action'' \<mapsto> ascii ''find_shops'']
   \<and> outbox (snd (handle_text reliable_env
         \<lparr>from_user_id = 7, chat_id = 7, message_text = ascii ''hello''\<rparr>
         (snd (handle_callback reliable_env
            \<lparr>call_from_user_id = 7, call_chat_id = 7, call_data = ascii ''find_shops''\<rparr>
            initial_world)))) = [(7, AskForLocation)]"
proof -
  let ?w = "snd (handle_callback reliable_env
       \<lparr>call_from_user_id = 7, call_chat_id = 7, call_data = ascii ''find_shops''\<rparr>
       initial_world)"
  let ?msg = "\<lparr>from_user_id = 7, chat_id = 7, message_text = ascii ''hello''\<rparr>"
  have st: "user_state ?w (from_user_id ?msg) = Some [ascii ''action'' \<mapsto> ascii ''find_shops'']"
    by (simp add: after_find_shops_button)
  have act: "[ascii ''action'' \<mapsto> ascii ''find_shops''] (ascii ''action'')
       = Some (ascii ''find_shops'')"
    by simp
  have db: "db_ok reliable_env"
    by (simp add: reliable_env_def)
  have out: "outbox ?w = [(7, AskForLocation)]"
    by (simp add: after_find_shops_button)
  from handle_text_find_shops_ignored [OF st act, of reliable_env] db
  have "user_state (snd (handle_text reliable_env ?msg ?w)) = user_state ?w"
    and "outbox (snd (handle_text reliable_env ?msg ?w)) = outbox ?w"
    by blast+
  with st act db out show ?thesis by simp
qed

text \<open>
  C5, as the claim has it, fails: after the button \<open>find_shops\<close> a text message is answered
  by nothing, the location prompt staying the last message sent, whereas the same text from
  a user with no pending action is answered by the main menu.
\<close>

theorem find_shops_text_gets_no_menu_counterexample:
  "outbox (snd (handle_text reliable_env
       \<lparr>from_user_id = 7, chat_id = 7, message_text = ascii ''hello''\<rparr>
       (snd (handle_callback reliable_env
          \<lparr>call_from_user_id = 7, call_chat_id = 7, call_data = ascii ''find_shops''\<rparr>
          initial_world)))) = [(7, AskForLocation)]
   \<and> outbox (snd (handle_text reliable_env
       \<lparr>from_user_id = 7, chat_id = 7, message_text = ascii ''hello''\<rparr> initial_world))
     = [(7, MainMenu)]"
proof
  let ?w = "snd (handle_callback reliable_env
       \<lparr>call_from_user_id = 7, call_chat_id = 7, call_data = ascii ''find_shops''\<rparr>
       initial_world)"
  let ?msg = "\<lparr>from_user_id = 7, chat_id = 7, message_text = ascii ''hello''\<rparr>"
  have st: "user_state ?w (from_user_id ?msg) = Some [ascii ''action'' \<mapsto> ascii ''find_shops'']"
    by (simp add: after_find_shops_button)
  have act: "[ascii ''action'' \<mapsto> ascii ''find_shops''] (ascii ''action'')
       = Some (ascii ''find_shops'')"
    by simp
  have db: "db_ok reliable_env"
    by (simp add: reliable_env_def)
  obtain x w1 where t: "handle_text_try reliable_env ?msg ?w = (x, w1)"
    by (cases "handle_text_try reliable_env ?msg ?w")
  from handle_text_try_find_shops (2,3) [OF st act db] t
  have "x = None" "outbox w1 = outbox ?w"
    by simp_all
  with t have "outbox (snd (handle_text reliable_env ?msg ?w)) = outbox ?w"
    by (simp add: handle_text_def)
  then show "outbox (snd (handle_text reliable_env ?msg ?w)) = [(7, AskForLocation)]"
    by (simp add: after_find_shops_button)
next
  let ?msg = "\<lparr>from_user_id = 7, chat_id = 7, message_text = ascii ''hello''\<rparr>"
  have "user_state initial_world (from_user_id ?msg) = None"
    by (simp add: initial_world_def)
  moreover have "db_ok reliable_env" "send_ok reliable_env (chat_id ?msg, MainMenu)"
    by (simp_all add: reliable_env_def)
  ultimately have "outbox (snd (handle_text reliable_env ?msg initial_world))
      = outbox initial_world @ [(chat_id ?msg, MainMenu)]"
    using handle_text_idle by blast
  then show "outbox (snd (handle_text reliable_env ?msg initial_world)) = [(7, MainMenu)]"
    by (simp add: initial_world_def)
qed





end
